theory Spec2Isabelle
  imports Main "HOL-Library.Word"
begin

section \<open>The todo service of \<open>main.go\<close>\<close>

text \<open>
  The program is four HTTP handlers over one MongoDB collection. The embedding keeps
  the handlers as they are written and makes their surroundings explicit:
  \<^item> the collection is the list of its documents, in storage order;
  \<^item> what a handler reads from the outside world (the fresh identifier, the clock, the
    error a driver call returns) is a field of an environment record;
  \<^item> a handler returns what it passed to \<open>rnd.JSON\<close>, or the panic it raised, together
    with the collection it leaves behind.
\<close>

subsection \<open>Identifiers: \<open>bson.ObjectId\<close>\<close>

text \<open>
  An object identifier is twelve bytes, kept here as one 96-bit word (big endian).
  \<open>Hex\<close> writes it as 24 lower-case hexadecimal digits; \<open>ObjectIdHex\<close> reads such a
  string back and panics on anything else; \<open>IsObjectIdHex\<close> is the test that
  \<open>deleteTodo\<close> makes first.
\<close>

type_synonym ObjectId = "96 word"

definition hex_char :: "nat \<Rightarrow> char" where
  "hex_char n = ''0123456789abcdef'' ! (n mod 16)"

fun hex_digits :: "nat \<Rightarrow> nat \<Rightarrow> string" where
  "hex_digits 0 n = []"
| "hex_digits (Suc k) n = hex_digits k (n div 16) @ [hex_char n]"

definition Hex :: "ObjectId \<Rightarrow> string" where
  "Hex oid = hex_digits 24 (unat oid)"

text \<open>\<open>hex.DecodeString\<close> accepts the digits and the letters a-f in either case.\<close>

definition hex_val :: "char \<Rightarrow> nat option" where
  "hex_val c =
     (let n = (of_char c :: nat) in
      if 48 \<le> n \<and> n \<le> 57 then Some (n - 48)
      else if 97 \<le> n \<and> n \<le> 102 then Some (n - 87)
      else if 65 \<le> n \<and> n \<le> 70 then Some (n - 55)
      else None)"

fun DecodeString :: "string \<Rightarrow> nat list option" where
  "DecodeString [] = Some []"
| "DecodeString [c] = None"
| "DecodeString (a # b # cs) =
     (case hex_val a of None \<Rightarrow> None
      | Some x \<Rightarrow>
        (case hex_val b of None \<Rightarrow> None
         | Some y \<Rightarrow>
           (case DecodeString cs of None \<Rightarrow> None
            | Some bs \<Rightarrow> Some ((16 * x + y) # bs))))"

definition IsObjectIdHex :: "string \<Rightarrow> bool" where
  "IsObjectIdHex s = (if length s \<noteq> 24 then False else DecodeString s \<noteq> None)"

definition oid_of_bytes :: "nat list \<Rightarrow> ObjectId" where
  "oid_of_bytes bs = of_nat (foldl (\<lambda>acc b. acc * 256 + b) 0 bs)"

text \<open>The left result is the panic, carrying the rejected input.\<close>

definition ObjectIdHex :: "string \<Rightarrow> string + ObjectId" where
  "ObjectIdHex s =
     (case DecodeString s of
        None \<Rightarrow> Inl s
      | Some d \<Rightarrow> if length d \<noteq> 12 then Inl s else Inr (oid_of_bytes d))"

subsection \<open>The two item shapes\<close>

type_synonym time = int

text \<open>The zero \<open>time.Time\<close> (1 January of year 1), in seconds from the Unix epoch.\<close>

definition zero_time :: time where
  "zero_time = - 62135596800"

record todoModel =
  ID :: ObjectId
  Title :: string
  Completed :: bool
  CreatedAt :: time

record todo =
  t_ID :: string
  t_Title :: string
  t_Completed :: bool
  t_CreatedAt :: time

definition zero_todo :: todo where
  "zero_todo = \<lparr>t_ID = [], t_Title = [], t_Completed = False, t_CreatedAt = zero_time\<rparr>"

subsection \<open>Errors, responses, the environment\<close>

text \<open>
  The errors \<open>Decode\<close> can return, by their Go type: \<open>*json.SyntaxError\<close> (its offset),
  \<open>*json.UnmarshalTypeError\<close> (the kind of JSON value met, the struct field),
  an \<open>errors.New\<close> value such as \<open>io.EOF\<close> (its text) and \<open>*time.ParseError\<close> (the
  rejected text). \<open>exported_fields\<close> lists the keys of the JSON object such a value
  is rendered as: the exported fields of its struct.
\<close>

datatype decode_error =
    SyntaxError nat
  | UnmarshalTypeError string string
  | ErrorString string
  | ParseError string

fun exported_fields :: "decode_error \<Rightarrow> string list" where
  "exported_fields (SyntaxError off) = [''Offset'']"
| "exported_fields (UnmarshalTypeError v f) =
     [''Value'', ''Type'', ''Offset'', ''Struct'', ''Field'']"
| "exported_fields (ErrorString s) = []"
| "exported_fields (ParseError s) =
     [''Layout'', ''Value'', ''LayoutElem'', ''ValueElem'', ''Message'']"

datatype storage_error = StorageError string

text \<open>
  What is handed to \<open>rnd.JSON\<close>: a \<open>renderer.M\<close> (keys with their values), or, in the
  two decode branches, the bare error. \<open>VNull\<close> is what a nil slice would render as;
  no handler produces it.
\<close>

datatype rvalue =
    VString string
  | VError storage_error
  | VTodos "todo list"
  | VNull

datatype payload = M "(string \<times> rvalue) list" | Err decode_error

datatype outcome = Responded nat payload | Panicked string

definition StatusProcessing :: nat where "StatusProcessing = 102"
definition StatusOK :: nat where "StatusOK = 200"
definition StatusCreated :: nat where "StatusCreated = 201"
definition StatusBadRequest :: nat where "StatusBadRequest = 400"

text \<open>A payload is a JSON object with a \<open>message\<close> field.\<close>

fun has_message :: "payload \<Rightarrow> bool" where
  "has_message (M kvs) = (''message'' \<in> set (map fst kvs))"
| "has_message (Err e) = (''message'' \<in> set (exported_fields e))"

record env =
  new_id :: ObjectId
  now :: time
  parse_time :: "string \<Rightarrow> time option"
  find_err :: "storage_error option"
  decode_err :: "todoModel \<Rightarrow> storage_error option"
  cursor_err :: "storage_error option"
  insert_err :: "storage_error option"
  update_err :: "storage_error option"
  delete_err :: "storage_error option"

subsection \<open>Request bodies: \<open>json.NewDecoder(r.Body).Decode(&t)\<close>\<close>

text \<open>
  The decoder first reads one JSON value from the body: \<open>NoValue\<close> is the error of that
  step (a syntax error, an empty or truncated body), \<open>Value\<close> the value read. It then
  stores the value into a zero \<open>todo\<close>: \<open>null\<close> stores nothing; an object stores each
  member whose key names a field (exactly or up to ASCII case), in order, later members
  overwriting earlier ones; a member \<open>null\<close> stores nothing; a member of the wrong kind
  is remembered as an \<open>UnmarshalTypeError\<close> (the first one is returned at the end) and
  decoding goes on; \<open>createdAt\<close> is decoded by \<open>Time.UnmarshalJSON\<close>, whose error ends
  the decoding at once. Any other value is an \<open>UnmarshalTypeError\<close>.
\<close>

datatype json =
    JNull
  | JBool bool
  | JNumber string
  | JString string
  | JArray "json list"
  | JObject "(string \<times> json) list"

datatype body = NoValue decode_error | Value json

datatype field = FID | FTitle | FCompleted | FCreatedAt

definition field_names :: "(string \<times> field) list" where
  "field_names =
     [(''id'', FID), (''title'', FTitle), (''completed'', FCompleted),
      (''createdAt'', FCreatedAt)]"

definition fold_name :: "string \<Rightarrow> nat list" where
  "fold_name s =
     map (\<lambda>c. let n = (of_char c :: nat) in if 97 \<le> n \<and> n \<le> 122 then n - 32 else n) s"

definition find_field :: "string \<Rightarrow> field option" where
  "find_field k =
     (case map_of field_names k of
        Some f \<Rightarrow> Some f
      | None \<Rightarrow> map_of (map (\<lambda>(n, f). (fold_name n, f)) field_names) (fold_name k))"

fun kind_of :: "json \<Rightarrow> string" where
  "kind_of JNull = ''null''"
| "kind_of (JBool b) = ''bool''"
| "kind_of (JNumber n) = ''number '' @ n"
| "kind_of (JString s) = ''string''"
| "kind_of (JArray xs) = ''array''"
| "kind_of (JObject kvs) = ''object''"

datatype stored = Stored todo | Saved decode_error | Aborted decode_error

fun store :: "env \<Rightarrow> field \<Rightarrow> json \<Rightarrow> todo \<Rightarrow> stored" where
  "store e f JNull t = Stored t"
| "store e FID (JString s) t = Stored (t\<lparr>t_ID := s\<rparr>)"
| "store e FID v t = Saved (UnmarshalTypeError (kind_of v) ''id'')"
| "store e FTitle (JString s) t = Stored (t\<lparr>t_Title := s\<rparr>)"
| "store e FTitle v t = Saved (UnmarshalTypeError (kind_of v) ''title'')"
| "store e FCompleted (JBool b) t = Stored (t\<lparr>t_Completed := b\<rparr>)"
| "store e FCompleted v t = Saved (UnmarshalTypeError (kind_of v) ''completed'')"
| "store e FCreatedAt (JString s) t =
     (case parse_time e s of
        None \<Rightarrow> Aborted (ParseError s)
      | Some tm \<Rightarrow> Stored (t\<lparr>t_CreatedAt := tm\<rparr>))"
| "store e FCreatedAt v t =
     Aborted (ErrorString ''Time.UnmarshalJSON: input is not a JSON string'')"

fun decode_object ::
  "env \<Rightarrow> (string \<times> json) list \<Rightarrow> todo \<Rightarrow> decode_error option
     \<Rightarrow> decode_error + (todo \<times> decode_error option)" where
  "decode_object e [] t saved = Inr (t, saved)"
| "decode_object e ((k, v) # kvs) t saved =
     (case find_field k of
        None \<Rightarrow> decode_object e kvs t saved
      | Some f \<Rightarrow>
        (case store e f v t of
           Stored t' \<Rightarrow> decode_object e kvs t' saved
         | Saved err \<Rightarrow>
             decode_object e kvs t (case saved of None \<Rightarrow> Some err | Some s \<Rightarrow> Some s)
         | Aborted err \<Rightarrow> Inl err))"

fun Decode :: "env \<Rightarrow> body \<Rightarrow> decode_error + todo" where
  "Decode e (NoValue err) = Inl err"
| "Decode e (Value JNull) = Inr zero_todo"
| "Decode e (Value (JObject kvs)) =
     (case decode_object e kvs zero_todo None of
        Inl err \<Rightarrow> Inl err
      | Inr (t, Some err) \<Rightarrow> Inl err
      | Inr (t, None) \<Rightarrow> Inr t)"
| "Decode e (Value v) = Inl (UnmarshalTypeError (kind_of v) [])"

subsection \<open>The collection\<close>

text \<open>
  \<open>InsertOne\<close> adds one document; \<open>UpdateOne\<close> with the filter \<open>{_id: oid}\<close> and
  \<open>$set\<close> of title and completed rewrites those two fields of the first document with
  that identifier, if there is one; \<open>DeleteOne\<close> removes the first such document. A
  call that returns an error leaves the collection as it was.
\<close>

definition InsertOne :: "todoModel \<Rightarrow> todoModel list \<Rightarrow> todoModel list" where
  "InsertOne tm coll = coll @ [tm]"

fun UpdateOne :: "ObjectId \<Rightarrow> string \<Rightarrow> bool \<Rightarrow> todoModel list \<Rightarrow> todoModel list" where
  "UpdateOne oid ttl c [] = []"
| "UpdateOne oid ttl c (d # ds) =
     (if ID d = oid then d\<lparr>Title := ttl, Completed := c\<rparr> # ds
      else d # UpdateOne oid ttl c ds)"

fun DeleteOne :: "ObjectId \<Rightarrow> todoModel list \<Rightarrow> todoModel list" where
  "DeleteOne oid [] = []"
| "DeleteOne oid (d # ds) = (if ID d = oid then ds else d # DeleteOne oid ds)"

subsection \<open>The handlers\<close>

definition JSON :: "nat \<Rightarrow> payload \<Rightarrow> outcome" where
  "JSON status v = Responded status v"

text \<open>The cursor loop of \<open>fetchTodos\<close>: decode each document, stop at the first error.\<close>

fun cursor_loop ::
  "env \<Rightarrow> todoModel list \<Rightarrow> todoModel list \<Rightarrow> storage_error + todoModel list" where
  "cursor_loop e [] todos = Inr todos"
| "cursor_loop e (d # ds) todos =
     (case decode_err e d of
        Some err \<Rightarrow> Inl err
      | None \<Rightarrow> cursor_loop e ds (todos @ [d]))"

fun todoList_of :: "todoModel list \<Rightarrow> todo list \<Rightarrow> todo list" where
  "todoList_of [] todoList = todoList"
| "todoList_of (t # ts) todoList =
     todoList_of ts
       (todoList @
        [\<lparr>t_ID = Hex (ID t), t_Title = Title t, t_Completed = Completed t,
          t_CreatedAt = CreatedAt t\<rparr>])"

definition fetch_failed :: "storage_error \<Rightarrow> outcome" where
  "fetch_failed err =
     JSON StatusProcessing
       (M [(''message'', VString ''Failed to fetch todos''), (''error'', VError err)])"

definition fetchTodos :: "env \<Rightarrow> todoModel list \<Rightarrow> outcome \<times> todoModel list" where
  "fetchTodos e coll =
     (case find_err e of
        Some err \<Rightarrow> (fetch_failed err, coll)
      | None \<Rightarrow>
        (case cursor_loop e coll [] of
           Inl err \<Rightarrow> (fetch_failed err, coll)
         | Inr todos \<Rightarrow>
           (case cursor_err e of
              Some err \<Rightarrow> (fetch_failed err, coll)
            | None \<Rightarrow>
                (JSON StatusOK (M [(''data'', VTodos (todoList_of todos []))]), coll))))"

definition createTodo :: "env \<Rightarrow> body \<Rightarrow> todoModel list \<Rightarrow> outcome \<times> todoModel list" where
  "createTodo e b coll =
     (case Decode e b of
        Inl err \<Rightarrow> (JSON StatusProcessing (Err err), coll)
      | Inr t \<Rightarrow>
        if t_Title t = [] then
          (JSON StatusBadRequest (M [(''message'', VString ''The title is required'')]), coll)
        else
          (let tm = \<lparr>ID = new_id e, Title = t_Title t, Completed = False, CreatedAt = now e\<rparr>
           in case insert_err e of
                Some err \<Rightarrow>
                  (JSON StatusProcessing
                     (M [(''message'', VString ''Failed to save todo''),
                         (''error'', VError err)]), coll)
              | None \<Rightarrow>
                  (JSON StatusCreated
                     (M [(''message'', VString ''Todo created successfully''),
                         (''todo_id'', VString (Hex (ID tm)))]),
                   InsertOne tm coll)))"

definition deleteTodo :: "env \<Rightarrow> string \<Rightarrow> todoModel list \<Rightarrow> outcome \<times> todoModel list" where
  "deleteTodo e ident coll =
     (if \<not> IsObjectIdHex ident then
        (JSON StatusBadRequest (M [(''message'', VString ''Invalid todo ID'')]), coll)
      else
        (case ObjectIdHex ident of
           Inl p \<Rightarrow> (Panicked p, coll)
         | Inr objID \<Rightarrow>
           (case delete_err e of
              Some err \<Rightarrow>
                (JSON StatusProcessing
                   (M [(''message'', VString ''Failed to delete todo''),
                       (''error'', VError err)]), coll)
            | None \<Rightarrow>
                (JSON StatusOK (M [(''message'', VString ''Todo deleted successfully'')]),
                 DeleteOne objID coll))))"

definition updateTodo ::
  "env \<Rightarrow> string \<Rightarrow> body \<Rightarrow> todoModel list \<Rightarrow> outcome \<times> todoModel list" where
  "updateTodo e ident b coll =
     (if ident = [] then
        (JSON StatusBadRequest (M [(''message'', VString ''The todo ID is required'')]), coll)
      else
        (case Decode e b of
           Inl err \<Rightarrow> (JSON StatusProcessing (Err err), coll)
         | Inr t \<Rightarrow>
           if t_Title t = [] then
             (JSON StatusBadRequest (M [(''message'', VString ''The title is required'')]),
              coll)
           else
             (case ObjectIdHex ident of
                Inl p \<Rightarrow> (Panicked p, coll)
              | Inr oid \<Rightarrow>
                (case update_err e of
                   Some err \<Rightarrow>
                     (JSON StatusProcessing
                        (M [(''message'', VString ''Failed to update todo''),
                            (''error'', VError err)]), coll)
                 | None \<Rightarrow>
                     (JSON StatusOK
                        (M [(''message'', VString ''Todo successfully updated'')]),
                      UpdateOne oid (t_Title t) (t_Completed t) coll)))))"

subsection \<open>The router \<open>todoHandlers\<close> and runs of the service\<close>

datatype request =
    Get
  | Post body
  | Put string body
  | Delete string

fun todoHandlers :: "env \<Rightarrow> request \<Rightarrow> todoModel list \<Rightarrow> outcome \<times> todoModel list" where
  "todoHandlers e Get coll = fetchTodos e coll"
| "todoHandlers e (Post b) coll = createTodo e b coll"
| "todoHandlers e (Put ident b) coll = updateTodo e ident b coll"
| "todoHandlers e (Delete ident) coll = deleteTodo e ident coll"

text \<open>A run serves the requests one after the other, each in its own environment.\<close>

fun run :: "(env \<times> request) list \<Rightarrow> todoModel list \<Rightarrow> todoModel list" where
  "run [] coll = coll"
| "run ((e, r) # rs) coll = run rs (snd (todoHandlers e r coll))"

text \<open>What identifies a stored item for good: its identifier and its creation time.\<close>

definition ident_of :: "todoModel \<Rightarrow> ObjectId \<times> time" where
  "ident_of d = (ID d, CreatedAt d)"

subsection \<open>Concrete inputs\<close>

definition env_ok :: env where
  "env_ok =
     \<lparr>new_id = 1, now = 1000, parse_time = (\<lambda>s. None), find_err = None,
      decode_err = (\<lambda>d. None), cursor_err = None, insert_err = None, update_err = None,
      delete_err = None\<rparr>"

definition env_down :: env where
  "env_down =
     \<lparr>new_id = 2, now = 2000, parse_time = (\<lambda>s. None),
      find_err = Some (StorageError ''connection refused''),
      decode_err = (\<lambda>d. None), cursor_err = None,
      insert_err = Some (StorageError ''connection refused''),
      update_err = Some (StorageError ''connection refused''),
      delete_err = Some (StorageError ''connection refused'')\<rparr>"

definition body_a :: body where
  "body_a = Value (JObject [(''title'', JString ''a'')])"

definition id_1 :: string where
  "id_1 = ''000000000000000000000001''"

definition doc_1 :: todoModel where
  "doc_1 = \<lparr>ID = 1, Title = ''old'', Completed = True, CreatedAt = 1000\<rparr>"

definition body_done :: body where
  "body_done = Value (JObject [(''title'', JString ''a''), (''completed'', JBool True)])"

definition body_untitled :: body where
  "body_untitled = Value (JObject [(''completed'', JBool True)])"

definition body_broken :: body where
  "body_broken = NoValue (SyntaxError 1)"

definition id_2 :: string where
  "id_2 = ''000000000000000000000002''"

section \<open>Properties\<close>

subsection \<open>Identifiers\<close>

lemma DecodeString_length: "DecodeString s = Some d \<Longrightarrow> length s = 2 * length d"
  by (induction s arbitrary: d rule: DecodeString.induct) (auto split: option.splits)

lemma IsObjectIdHex_iff: "IsObjectIdHex s \<longleftrightarrow> (\<exists>oid. ObjectIdHex s = Inr oid)"
  by (auto simp: IsObjectIdHex_def ObjectIdHex_def dest: DecodeString_length split: option.splits)

lemma IsObjectIdHex_nonempty: "IsObjectIdHex s \<Longrightarrow> s \<noteq> []"
  by (auto simp: IsObjectIdHex_def)

lemma length_hex_digits: "length (hex_digits k n) = k"
  by (induction k arbitrary: n) auto

lemma length_Hex: "length (Hex oid) = 24"
  by (simp add: Hex_def length_hex_digits)

subsection \<open>The collection\<close>

lemma length_UpdateOne: "length (UpdateOne oid ttl c coll) = length coll"
  by (induction coll) auto

lemma UpdateOne_no_match: "oid \<notin> ID ` set coll \<Longrightarrow> UpdateOne oid ttl c coll = coll"
  by (induction coll) auto

lemma UpdateOne_nth:
  "i < length coll \<Longrightarrow>
   UpdateOne oid ttl c coll ! i =
     (if ID (coll ! i) = oid \<and> (\<forall>j<i. ID (coll ! j) \<noteq> oid)
      then (coll ! i)\<lparr>Title := ttl, Completed := c\<rparr> else coll ! i)"
proof (induction coll arbitrary: i)
  case Nil
  then show ?case by simp
next
  case (Cons d ds)
  show ?case
  proof (cases i)
    case 0
    then show ?thesis by simp
  next
    case (Suc k)
    show ?thesis
    proof (cases "ID d = oid")
      case True
      then have "\<not> (\<forall>j<i. ID ((d # ds) ! j) \<noteq> oid)" using Suc by auto
      then have "(if ID ((d # ds) ! i) = oid \<and> (\<forall>j<i. ID ((d # ds) ! j) \<noteq> oid)
           then ((d # ds) ! i)\<lparr>Title := ttl, Completed := c\<rparr> else (d # ds) ! i) = (d # ds) ! i"
        by (simp only: simp_thms if_False)
      then show ?thesis using True Suc by simp
    next
      case False
      have k: "k < length ds" using Cons.prems Suc by simp
      have eq: "(\<forall>j<Suc k. ID ((d # ds) ! j) \<noteq> oid) \<longleftrightarrow> (\<forall>j<k. ID (ds ! j) \<noteq> oid)"
        using False by (auto simp: less_Suc_eq_0_disj)
      have "UpdateOne oid ttl c (d # ds) ! i = UpdateOne oid ttl c ds ! k"
        using False Suc by simp
      also have "\<dots> = (if ID (ds ! k) = oid \<and> (\<forall>j<k. ID (ds ! j) \<noteq> oid)
          then (ds ! k)\<lparr>Title := ttl, Completed := c\<rparr> else ds ! k)"
        by (rule Cons.IH [OF k])
      also have "\<dots> = (if ID ((d # ds) ! i) = oid \<and> (\<forall>j<i. ID ((d # ds) ! j) \<noteq> oid)
          then ((d # ds) ! i)\<lparr>Title := ttl, Completed := c\<rparr> else (d # ds) ! i)"
        by (simp only: eq Suc nth_Cons_Suc)
      finally show ?thesis .
    qed
  qed
qed

lemma UpdateOne_ident: "map ident_of (UpdateOne oid ttl c coll) = map ident_of coll"
  by (induction coll) (auto simp: ident_of_def)

lemma UpdateOne_titles:
  "ttl \<noteq> [] \<Longrightarrow> \<forall>d\<in>set coll. Title d \<noteq> [] \<Longrightarrow>
   \<forall>d\<in>set (UpdateOne oid ttl c coll). Title d \<noteq> []"
  by (induction coll) auto

lemma DeleteOne_no_match: "oid \<notin> ID ` set coll \<Longrightarrow> DeleteOne oid coll = coll"
  by (induction coll) auto

lemma DeleteOne_match:
  "oid \<in> ID ` set coll \<Longrightarrow>
   \<exists>xs d ys. coll = xs @ d # ys \<and> ID d = oid \<and> oid \<notin> ID ` set xs \<and>
     DeleteOne oid coll = xs @ ys"
proof (induction coll)
  case Nil
  then show ?case by simp
next
  case (Cons a coll)
  show ?case
  proof (cases "ID a = oid")
    case True
    then have "a # coll = [] @ a # coll \<and> ID a = oid \<and> oid \<notin> ID ` set [] \<and>
        DeleteOne oid (a # coll) = [] @ coll"
      by simp
    then show ?thesis by blast
  next
    case False
    then have "oid \<in> ID ` set coll" using Cons.prems by auto
    then obtain xs d ys where
      h: "coll = xs @ d # ys" "ID d = oid" "oid \<notin> ID ` set xs" "DeleteOne oid coll = xs @ ys"
      using Cons.IH by blast
    then have "a # coll = (a # xs) @ d # ys \<and> ID d = oid \<and> oid \<notin> ID ` set (a # xs) \<and>
        DeleteOne oid (a # coll) = (a # xs) @ ys"
      using False by auto
    then show ?thesis by blast
  qed
qed

lemma DeleteOne_subset: "set (DeleteOne oid coll) \<subseteq> set coll"
  by (induction coll) auto

lemma DeleteOne_cases:
  "DeleteOne oid coll = coll \<or> (\<exists>xs d ys. coll = xs @ d # ys \<and> DeleteOne oid coll = xs @ ys)"
  using DeleteOne_no_match [of oid coll] DeleteOne_match [of oid coll] by blast

subsection \<open>Evaluation on concrete inputs\<close>

lemma hex_digits_numeral:
  "hex_digits (numeral k) n = hex_digits (pred_numeral k) (n div 16) @ [hex_char n]"
proof -
  have "numeral k = Suc (pred_numeral k)" by (rule numeral_eq_Suc)
  then show ?thesis by (simp only: hex_digits.simps)
qed

lemmas status_defs = StatusProcessing_def StatusOK_def StatusCreated_def StatusBadRequest_def

lemmas decode_defs = find_field_def field_names_def fold_name_def zero_todo_def

lemmas oid_defs = IsObjectIdHex_def ObjectIdHex_def hex_val_def oid_of_bytes_def Hex_def
  hex_char_def hex_digits_numeral

subsection \<open>Listing\<close>

text \<open>
  C9. A list request over an empty collection, when neither \<open>Find\<close> nor the cursor
  reports an error, is answered with status 200 and a body whose \<open>data\<close> field is the
  empty array: \<open>todoList\<close> starts as \<open>[]todo{}\<close>, so the field is present and is not
  \<open>null\<close>.
\<close>

theorem fetchTodos_empty:
  assumes "find_err e = None" and "cursor_err e = None"
  shows "fetchTodos e [] = (Responded StatusOK (M [(''data'', VTodos [])]), [])"
  using assms by (simp add: fetchTodos_def JSON_def)

theorem fetchTodos_empty_witness:
  "fetchTodos env_ok [] = (Responded 200 (M [(''data'', VTodos [])]), [])"
proof -
  have "find_err env_ok = None" and "cursor_err env_ok = None"
    by (simp_all add: env_ok_def)
  then show ?thesis
    using fetchTodos_empty [of env_ok] by (simp add: StatusOK_def)
qed

end
